theory Spec2Isabelle
  imports Complex_Main
begin

section \<open>Python values that cross the wire\<close>

text \<open>
  A Python float is either a finite double or one of the three special values.
  The code below never computes with a duration: it only passes it on and asks
  \<^verbatim>\<open>math.isfinite\<close>. A finite double is therefore carried as the real
  number it denotes.
\<close>

datatype pyfloat = Finite real | PosInf | NegInf | NaN

fun isfinite :: "pyfloat \<Rightarrow> bool" where
  "isfinite (Finite _) = True"
| "isfinite PosInf = False"
| "isfinite NegInf = False"
| "isfinite NaN = False"

text \<open>
  What \<^verbatim>\<open>recv_json\<close> hands back: the Python object decoded from a JSON document.
  A dict is an association list whose keys are distinct, looked up with \<^const>\<open>map_of\<close>.
\<close>

datatype pyobj =
    PyNone
  | PyBool bool
  | PyInt int
  | PyFloat pyfloat
  | PyStr string
  | PyList "pyobj list"
  | PyDict "(string \<times> pyobj) list"

datatype pyexn =
    TypeError
  | ValueError
  | OverflowError
  | JSONDecodeError
  | ZMQError
  | AttributeError
  | UnboundLocalError

text \<open>
  The builtin \<^verbatim>\<open>float()\<close> rounds an int to the nearest double (OverflowError when it is
  too large) and parses a str (ValueError when it is not a float literal). Both are
  parameters of the model; every theorem below holds for all of them.
\<close>

record builtins =
  float_of_int :: "int \<Rightarrow> pyexn + pyfloat"
  float_of_str :: "string \<Rightarrow> pyexn + pyfloat"

fun py_float :: "builtins \<Rightarrow> pyobj \<Rightarrow> pyexn + pyfloat" where
  "py_float fp (PyFloat d) = Inr d"
| "py_float fp (PyBool b) = Inr (Finite (if b then 1 else 0))"
| "py_float fp (PyInt n) = float_of_int fp n"
| "py_float fp (PyStr s) = float_of_str fp s"
| "py_float fp PyNone = Inl TypeError"
| "py_float fp (PyList xs) = Inl TypeError"
| "py_float fp (PyDict kvs) = Inl TypeError"

text \<open>
  An instance on which the model can be run. Where it gives a float it gives the one
  CPython gives: the integers of magnitude up to 9007199254740992 are doubles themselves, and four
  spellings are parsed. Everything else it refuses, also where CPython would round or
  parse. The general theorems are stated for an arbitrary instance; this one only fixes
  the concrete runs, and those stay inside the part where it agrees with CPython.
\<close>

definition table_builtins :: builtins where
  "table_builtins =
     \<lparr>float_of_int = (\<lambda>n. if \<bar>n\<bar> \<le> 9007199254740992 then Inr (Finite (of_int n))
                           else Inl OverflowError),
      float_of_str = (\<lambda>s. if s = ''nan'' then Inr NaN
                           else if s = ''inf'' then Inr PosInf
                           else if s = ''-inf'' then Inr NegInf
                           else if s = ''2.5'' then Inr (Finite 2.5)
                           else Inl ValueError)\<rparr>"

section \<open>StytraComm: one request/reply exchange\<close>

text \<open>
  What the socket library and the peer do during one call of
  \<^verbatim>\<open>trigger_and_receive_duration\<close>: \<^verbatim>\<open>connect\<close> and \<^verbatim>\<open>send_json\<close> may raise,
  \<^verbatim>\<open>poll(1000)\<close> may time out, and \<^verbatim>\<open>recv_json\<close> either decodes the reply or raises
  on a body that is not JSON.

  The code sets no \<^verbatim>\<open>LINGER\<close>, so the socket keeps the library's default, an unbounded
  linger period: a request that no peer has taken stays queued when the socket is
  closed, and \<^verbatim>\<open>zmq_context.destroy()\<close> waits until a peer takes it. \<open>delivered\<close> says
  whether a peer ever does; if none does, \<^verbatim>\<open>destroy\<close> never comes back. A reply shows
  that the request was taken. Every other library call comes back, with a result or
  an exception.
\<close>

datatype recv = Timeout | RecvRaises pyexn | Recv pyobj

record wire =
  connect_error :: "pyexn option"
  send_error :: "pyexn option"
  recv :: recv
  delivered :: bool

text \<open>The two resources the call acquires, as they are when the call is left.\<close>

record zmq_state =
  context_open :: bool
  socket_open :: bool

text \<open>Lines 28-31: a dict with a \<^verbatim>\<open>duration\<close> key gives that field, anything else itself.\<close>

definition duration_candidate :: "pyobj \<Rightarrow> pyobj" where
  "duration_candidate reply =
     (case reply of
        PyDict kvs \<Rightarrow> (case map_of kvs ''duration'' of Some d \<Rightarrow> d | None \<Rightarrow> reply)
      | _ \<Rightarrow> reply)"

text \<open>Lines 34-43: coerce with \<^verbatim>\<open>float\<close>, catching every exception, and keep finite values only.\<close>

definition normalize :: "builtins \<Rightarrow> pyobj \<Rightarrow> pyfloat option" where
  "normalize fp duration =
     (let duration_val = (case py_float fp duration of Inl _ \<Rightarrow> None | Inr d \<Rightarrow> Some d)
      in case duration_val of
           None \<Rightarrow> None
         | Some d \<Rightarrow> if \<not> isfinite d then None else Some d)"

text \<open>
  The whole method. The socket is opened by a \<^verbatim>\<open>with\<close> statement, which closes it on
  every way out of the block; \<^verbatim>\<open>zmq_context.destroy()\<close> is the statement after the
  block, reached only when the block is left normally. The result is \<open>None\<close> when the
  call never comes back, and otherwise what it raises or returns, with the state of
  the two resources.
\<close>

definition trigger_and_receive_duration ::
  "builtins \<Rightarrow> 'cfg \<Rightarrow> wire \<Rightarrow> ((pyexn + pyfloat option) \<times> zmq_state) option" where
  "trigger_and_receive_duration fp config w =
     (case connect_error w of
        Some x \<Rightarrow> Some (Inl x, \<lparr>context_open = True, socket_open = False\<rparr>)
      | None \<Rightarrow>
     (case send_error w of
        Some x \<Rightarrow> Some (Inl x, \<lparr>context_open = True, socket_open = False\<rparr>)
      | None \<Rightarrow>
     (case recv w of
        Timeout \<Rightarrow>
          (if delivered w
           then Some (Inr None, \<lparr>context_open = False, socket_open = False\<rparr>)
           else None)
      | RecvRaises x \<Rightarrow> Some (Inl x, \<lparr>context_open = True, socket_open = False\<rparr>)
      | Recv reply \<Rightarrow>
          Some (Inr (normalize fp (duration_candidate reply)),
                \<lparr>context_open = False, socket_open = False\<rparr>))))"

text \<open>
  A call in which connecting and sending succeed, a peer takes the request, and the
  peer's answer is \<open>r\<close>.
\<close>

definition answered :: "recv \<Rightarrow> wire" where
  "answered r = \<lparr>connect_error = None, send_error = None, recv = r, delivered = True\<rparr>"

text \<open>A call to an address where no peer ever listens: the request stays queued, no reply comes.\<close>

definition unreached :: wire where
  "unreached = \<lparr>connect_error = None, send_error = None, recv = Timeout, delivered = False\<rparr>"

section \<open>ExternalComm: the coordinator\<close>

text \<open>
  The five cross-process events. The coordinator reads them and writes one of them only:
  it clears \<open>start_comm\<close>. Every other write comes from another process.
\<close>

record signals =
  stop_event :: bool
  start_comm :: bool
  saving_event :: bool
  is_triggered_event :: bool
  waiting_event :: bool

datatype logmsg =
    Started
  | ConditionChanged bool bool bool bool bool
  | SkippingTrigger
  | SentCommunication

text \<open>\<^verbatim>\<open>dict(lightsheet=clean_json(...))\<close>: a dict with the single key \<^verbatim>\<open>lightsheet\<close>.\<close>

datatype 'j config = Lightsheet 'j

text \<open>
  The object's attributes, the local variable \<open>current_config\<close> of \<^verbatim>\<open>run\<close> (\<open>None\<close> while
  the name is unbound), and the two channels. \<open>requests\<close> and \<open>clears\<close> record what the
  coordinator did: the configs handed to the link, and how often \<^verbatim>\<open>start_comm.clear()\<close>
  ran. \<open>duration_queue\<close> holds what was put, in order; consumers are not modelled.
\<close>

record ('s, 'j) coord =
  scanning_trigger :: bool
  events :: signals
  current_settings_queue :: "'s list"
  current_settings :: "'s option"
  current_config :: "'j config option"
  last_trigger_cond :: bool
  duration_queue :: "pyfloat list"
  messages :: "logmsg list"
  requests :: "'j config list"
  clears :: nat

text \<open>\<^verbatim>\<open>__init__\<close>: \<open>is_triggered_event\<close> is a fresh \<^verbatim>\<open>Event()\<close>, hence clear.\<close>

definition init :: "bool \<Rightarrow> signals \<Rightarrow> pyfloat list \<Rightarrow> ('s, 'j) coord" where
  "init trig evs dq =
     \<lparr>scanning_trigger = trig,
      events = evs\<lparr>is_triggered_event := False\<rparr>,
      current_settings_queue = [],
      current_settings = None,
      current_config = None,
      last_trigger_cond = False,
      duration_queue = dq,
      messages = [],
      requests = [],
      clears = 0\<rparr>"

text \<open>
  \<^verbatim>\<open>trigger_condition\<close> (lines 45-59). With \<open>scanning_trigger\<close> off the method falls
  off its end and returns Python's \<^verbatim>\<open>None\<close>: the result is a \<open>bool option\<close>.
  The four events are read as one snapshot.
\<close>

definition trigger_condition :: "('s, 'j) coord \<Rightarrow> bool option \<times> ('s, 'j) coord" where
  "trigger_condition c =
     (if scanning_trigger c then
        (let g = events c;
             cond = (start_comm g \<and> saving_event g \<and> is_triggered_event g
                       \<and> \<not> waiting_event g)
         in (Some cond,
             if cond \<noteq> last_trigger_cond c
             then c\<lparr>messages := messages c @
                       [ConditionChanged (start_comm g) (saving_event g)
                          (is_triggered_event g) (waiting_event g) cond],
                    last_trigger_cond := cond\<rparr>
             else c))
      else (None, c))"

text \<open>What \<^verbatim>\<open>if\<close> makes of the result: \<^verbatim>\<open>None\<close> and \<^verbatim>\<open>False\<close> are both falsy.\<close>

definition truthy :: "bool option \<Rightarrow> bool" where
  "truthy r = (case r of None \<Rightarrow> False | Some b \<Rightarrow> b)"

text \<open>
  Lines 64-71: pop until \<^verbatim>\<open>get\<close> raises \<^verbatim>\<open>Empty\<close>; every popped entry overwrites
  \<open>current_settings\<close> and rebuilds \<open>current_config\<close>. \<^verbatim>\<open>clean_json\<close> lives in
  \<^verbatim>\<open>sashimi.utilities\<close> and is a parameter here.
\<close>

fun drain :: "('s \<Rightarrow> 'j) \<Rightarrow> 's list \<Rightarrow> ('s, 'j) coord \<Rightarrow> ('s, 'j) coord" where
  "drain clean_json [] c = c\<lparr>current_settings_queue := []\<rparr>"
| "drain clean_json (x # q) c =
     drain clean_json q
       (c\<lparr>current_settings_queue := q,
          current_settings := Some x,
          current_config := Some (Lightsheet (clean_json x))\<rparr>)"

definition drain_settings :: "('s \<Rightarrow> 'j) \<Rightarrow> ('s, 'j) coord \<Rightarrow> ('s, 'j) coord" where
  "drain_settings clean_json c = drain clean_json (current_settings_queue c) c"

text \<open>
  What the rest of the system does around one iteration: settings published and events
  written before it, what \<^verbatim>\<open>start_comm.event.wait(timeout=1.0)\<close> does (a boolean, or an
  exception when the underlying event is not available), events written while the
  coordinator waits, and what the link meets on the wire.
\<close>

record ('s, 'w) surroundings =
  published :: "'s list"
  written_before :: "signals \<Rightarrow> signals"
  wait_outcome :: "pyexn + bool"
  written_during_wait :: "signals \<Rightarrow> signals"
  peer :: 'w

text \<open>Lines 76-80: the bounded wait, and \<^verbatim>\<open>is_set()\<close> when the wait itself raises.\<close>

definition confirm_start :: "pyexn + bool \<Rightarrow> ('s, 'j) coord \<Rightarrow> bool" where
  "confirm_start w c = (case w of Inr b \<Rightarrow> b | Inl _ \<Rightarrow> start_comm (events c))"

text \<open>
  How one pass through the loop body is left: at its end, by an exception, or not at all
  because the call of the link never comes back. Each carries the coordinator's state
  at that point.
\<close>

datatype 'a ending = Completed 'a | Failed pyexn 'a | Hung 'a

fun state_after :: "'a ending \<Rightarrow> 'a" where
  "state_after (Completed c) = c"
| "state_after (Failed x c) = c"
| "state_after (Hung c) = c"

text \<open>
  Lines 86-92. The \<^verbatim>\<open>print\<close> reads \<open>current_config\<close> first, which raises
  \<^verbatim>\<open>UnboundLocalError\<close> when no settings entry was ever popped. The link is a
  parameter: its call comes back with an exception or a result, or not at all
  (\<open>None\<close>). An exception of the link is not caught. Otherwise a value is put on the
  duration queue, and \<open>start_comm\<close> is cleared.
\<close>

definition fire ::
  "('j config \<Rightarrow> 'w \<Rightarrow> (pyexn + pyfloat option) option) \<Rightarrow> 'w \<Rightarrow> ('s, 'j) coord
     \<Rightarrow> ('s, 'j) coord ending" where
  "fire comm w c =
     (case current_config c of
        None \<Rightarrow> Failed UnboundLocalError c
      | Some cfg \<Rightarrow>
          (let c1 = c\<lparr>requests := requests c @ [cfg]\<rparr> in
           case comm cfg w of
             None \<Rightarrow> Hung c1
           | Some (Inl x) \<Rightarrow> Failed x c1
           | Some (Inr duration) \<Rightarrow>
               (let c2 = (case duration of
                            None \<Rightarrow> c1
                          | Some d \<Rightarrow> c1\<lparr>duration_queue := duration_queue c1 @ [d]\<rparr>);
                    c3 = c2\<lparr>messages := messages c2 @ [SentCommunication]\<rparr>
                in Completed (c3\<lparr>events := (events c3)\<lparr>start_comm := False\<rparr>,
                                 clears := Suc (clears c3)\<rparr>))))"

text \<open>One pass through the body of the outer \<^verbatim>\<open>while\<close> (lines 64-92).\<close>

definition iteration ::
  "('j config \<Rightarrow> 'w \<Rightarrow> (pyexn + pyfloat option) option) \<Rightarrow> ('s \<Rightarrow> 'j)
     \<Rightarrow> ('s, 'w) surroundings \<Rightarrow> ('s, 'j) coord \<Rightarrow> ('s, 'j) coord ending" where
  "iteration comm clean_json e c =
     (let c1 = drain_settings clean_json c;
          (r, c2) = trigger_condition c1
      in if truthy r then
           (let c3 = c2\<lparr>events := written_during_wait e (events c2)\<rparr>;
                started = confirm_start (wait_outcome e) c3
            in if \<not> started
               then Completed (c3\<lparr>messages := messages c3 @ [SkippingTrigger]\<rparr>)
               else fire comm (peer e) c3)
         else Completed c2)"

text \<open>
  The outer loop. Each round takes the next entry of the list of surroundings; when the
  list is used up the loop is still going (\<open>Running\<close>). \<open>Stopped\<close> is the normal end
  (the \<^verbatim>\<open>while\<close> test failed, \<^verbatim>\<open>close_log()\<close> follows), \<open>Raised\<close> an exception
  that leaves \<^verbatim>\<open>run\<close>, and \<open>Blocked\<close> a loop that stands still inside a call of the
  link that never comes back.
\<close>

datatype 'a outcome = Stopped 'a | Raised pyexn 'a | Blocked 'a | Running 'a

fun final :: "'a outcome \<Rightarrow> 'a" where
  "final (Stopped c) = c"
| "final (Raised x c) = c"
| "final (Blocked c) = c"
| "final (Running c) = c"

fun is_raised :: "'a outcome \<Rightarrow> bool" where
  "is_raised (Raised x c) = True"
| "is_raised (Stopped c) = False"
| "is_raised (Blocked c) = False"
| "is_raised (Running c) = False"

definition arrive :: "('s, 'w) surroundings \<Rightarrow> ('s, 'j) coord \<Rightarrow> ('s, 'j) coord" where
  "arrive e c =
     c\<lparr>events := written_before e (events c),
       current_settings_queue := current_settings_queue c @ published e\<rparr>"

fun run_loop ::
  "('j config \<Rightarrow> 'w \<Rightarrow> (pyexn + pyfloat option) option) \<Rightarrow> ('s \<Rightarrow> 'j)
     \<Rightarrow> ('s, 'w) surroundings list \<Rightarrow> ('s, 'j) coord \<Rightarrow> ('s, 'j) coord outcome" where
  "run_loop comm clean_json [] c = Running c"
| "run_loop comm clean_json (e # es) c =
     (let c0 = arrive e c in
      if stop_event (events c0) then Stopped c0
      else (case iteration comm clean_json e c0 of
              Failed x c' \<Rightarrow> Raised x c'
            | Hung c' \<Rightarrow> Blocked c'
            | Completed c' \<Rightarrow> run_loop comm clean_json es c'))"

definition run ::
  "('j config \<Rightarrow> 'w \<Rightarrow> (pyexn + pyfloat option) option) \<Rightarrow> ('s \<Rightarrow> 'j)
     \<Rightarrow> ('s, 'w) surroundings list \<Rightarrow> ('s, 'j) coord \<Rightarrow> ('s, 'j) coord outcome" where
  "run comm clean_json es c =
     run_loop comm clean_json es
       (c\<lparr>messages := messages c @ [Started], current_config := None\<rparr>)"

text \<open>The network variant of the link, as the coordinator calls it.\<close>

definition stytra_comm ::
  "builtins \<Rightarrow> 'j config \<Rightarrow> wire \<Rightarrow> (pyexn + pyfloat option) option" where
  "stytra_comm fp cfg w = map_option fst (trigger_and_receive_duration fp cfg w)"

section \<open>Concrete runs\<close>

text \<open>
  Events as they stand when a trigger is due: acquisition started, saving, hardware
  triggered, not waiting, no stop.
\<close>

definition armed :: signals where
  "armed = \<lparr>stop_event = False, start_comm = True, saving_event = True,
             is_triggered_event = True, waiting_event = False\<rparr>"

text \<open>A coordinator in scanning-trigger mode with those events and one settings entry queued.\<close>

definition ready :: "(nat, nat) coord" where
  "ready = (init True armed [])\<lparr>events := armed, current_settings_queue := [7]\<rparr>"

text \<open>
  Three kinds of surroundings: nothing is written by anybody (\<open>calm\<close>); the wait raises and
  \<open>start_comm\<close> is cleared by its owner meanwhile (\<open>withdrawn\<close>); the stop event is set
  before the iteration (\<open>halting\<close>).
\<close>

definition calm :: "'w \<Rightarrow> pyexn + bool \<Rightarrow> ('s, 'w) surroundings" where
  "calm w b = \<lparr>published = [], written_before = (\<lambda>g. g), wait_outcome = b,
               written_during_wait = (\<lambda>g. g), peer = w\<rparr>"

definition withdrawn :: "'w \<Rightarrow> ('s, 'w) surroundings" where
  "withdrawn w = \<lparr>published = [], written_before = (\<lambda>g. g),
                  wait_outcome = Inl AttributeError,
                  written_during_wait = (\<lambda>g. g\<lparr>start_comm := False\<rparr>), peer = w\<rparr>"

definition halting :: "'w \<Rightarrow> ('s, 'w) surroundings" where
  "halting w = \<lparr>published = [], written_before = (\<lambda>g. g\<lparr>stop_event := True\<rparr>),
                wait_outcome = Inr True, written_during_wait = (\<lambda>g. g), peer = w\<rparr>"

section \<open>Properties of the exchange\<close>

text \<open>
  C4. For every finite floating-point value \<open>v\<close>: when the peer's reply is the object
  \<^verbatim>\<open>{"duration": v}\<close> the call returns \<open>v\<close>, and when the reply is the bare scalar
  \<open>v\<close> the call returns \<open>v\<close> as well. In both cases the call comes back, with
  socket and context torn down.
\<close>

theorem finite_reply_returned:
  "trigger_and_receive_duration fp config
       (answered (Recv (PyDict [(''duration'', PyFloat (Finite v))])))
     = Some (Inr (Some (Finite v)), \<lparr>context_open = False, socket_open = False\<rparr>)
   \<and> trigger_and_receive_duration fp config (answered (Recv (PyFloat (Finite v))))
     = Some (Inr (Some (Finite v)), \<lparr>context_open = False, socket_open = False\<rparr>)"
  by (simp add: trigger_and_receive_duration_def answered_def duration_candidate_def
      normalize_def)

text \<open>
  C10. For every reply that is a JSON object without a \<^verbatim>\<open>duration\<close> key, the whole
  object is the candidate handed to \<^verbatim>\<open>float\<close>, \<^verbatim>\<open>float\<close> raises \<^verbatim>\<open>TypeError\<close> on it,
  the exception is caught, and the call returns the absent result (with socket and
  context torn down) instead of raising.
\<close>

theorem object_without_duration_is_absent:
  assumes "''duration'' \<notin> fst ` set kvs"
  shows "duration_candidate (PyDict kvs) = PyDict kvs
       \<and> py_float fp (PyDict kvs) = Inl TypeError
       \<and> trigger_and_receive_duration fp config (answered (Recv (PyDict kvs)))
           = Some (Inr None, \<lparr>context_open = False, socket_open = False\<rparr>)"
proof -
  have "map_of kvs ''duration'' = None"
    using assms by (simp add: map_of_eq_None_iff)
  then have cand: "duration_candidate (PyDict kvs) = PyDict kvs"
    by (simp add: duration_candidate_def)
  then show ?thesis
    by (simp add: trigger_and_receive_duration_def answered_def normalize_def)
qed

theorem object_without_duration_is_absent_witness:
  "''duration'' \<notin> fst ` set [(''elapsed'', PyFloat (Finite 2))]
   \<and> trigger_and_receive_duration table_builtins (Lightsheet (7::nat))
         (answered (Recv (PyDict [(''elapsed'', PyFloat (Finite 2))])))
       = Some (Inr None, \<lparr>context_open = False, socket_open = False\<rparr>)"
proof -
  have h: "''duration'' \<notin> fst ` set [(''elapsed'', PyFloat (Finite 2))]"
    by simp
  from object_without_duration_is_absent
         [OF h, where fp = table_builtins and config = "Lightsheet (7::nat)"]
  show ?thesis using h by simp
qed




text \<open>
  C8. The claim is that socket and context are torn down on every way out of the call.
  The socket is: the \<^verbatim>\<open>with\<close> statement closes it. The context is not: when the peer's
  reply is not JSON, \<^verbatim>\<open>recv_json\<close> raises inside the block, the call is left with that
  exception, and \<^verbatim>\<open>zmq_context.destroy()\<close> is never reached.
\<close>

theorem context_survives_decode_error:
  "trigger_and_receive_duration fp config (answered (RecvRaises JSONDecodeError))
     = Some (Inl JSONDecodeError, \<lparr>context_open = True, socket_open = False\<rparr>)"
  by (simp add: trigger_and_receive_duration_def answered_def)

section \<open>Properties of the coordinator\<close>

subsection \<open>What draining and gating leave alone\<close>

lemma drain_events [simp]: "events (drain cj q c) = events c"
  by (induction q arbitrary: c) simp_all

lemma drain_scanning [simp]: "scanning_trigger (drain cj q c) = scanning_trigger c"
  by (induction q arbitrary: c) simp_all

lemma drain_queue [simp]: "current_settings_queue (drain cj q c) = []"
  by (induction q arbitrary: c) simp_all

lemma drain_config:
  "current_config (drain cj q c) =
     (if q = [] then current_config c else Some (Lightsheet (cj (last q))))"
  by (induction q arbitrary: c) simp_all

lemma drain_current_settings:
  "current_settings (drain cj q c) = (if q = [] then current_settings c else Some (last q))"
  by (induction q arbitrary: c) simp_all

lemma drain_untouched [simp]:
  "duration_queue (drain cj q c) = duration_queue c"
  "requests (drain cj q c) = requests c"
  "clears (drain cj q c) = clears c"
  "messages (drain cj q c) = messages c"
  "last_trigger_cond (drain cj q c) = last_trigger_cond c"
  by (induction q arbitrary: c) simp_all

lemma drain_settings_frame [simp]:
  "events (drain_settings cj c) = events c"
  "scanning_trigger (drain_settings cj c) = scanning_trigger c"
  "duration_queue (drain_settings cj c) = duration_queue c"
  "requests (drain_settings cj c) = requests c"
  "clears (drain_settings cj c) = clears c"
  "current_settings_queue (drain_settings cj c) = []"
  by (simp_all add: drain_settings_def)

lemma trigger_condition_frame [simp]:
  "events (snd (trigger_condition c)) = events c"
  "scanning_trigger (snd (trigger_condition c)) = scanning_trigger c"
  "current_config (snd (trigger_condition c)) = current_config c"
  "current_settings_queue (snd (trigger_condition c)) = current_settings_queue c"
  "duration_queue (snd (trigger_condition c)) = duration_queue c"
  "requests (snd (trigger_condition c)) = requests c"
  "clears (snd (trigger_condition c)) = clears c"
  by (simp_all add: trigger_condition_def Let_def)

lemma ready_gate: "truthy (fst (trigger_condition (drain_settings (\<lambda>n. n) ready)))"
  by (simp add: trigger_condition_def truthy_def drain_settings_def ready_def armed_def
      init_def)

lemma ready_config: "current_config (drain_settings (\<lambda>n. n) ready) = Some (Lightsheet 7)"
  by (simp add: drain_settings_def ready_def init_def)

subsection \<open>The gating condition\<close>

text \<open>
  C1, amended. \<^verbatim>\<open>trigger_condition\<close> returns \<open>True\<close> iff scanning-trigger mode is enabled
  and \<open>start_comm\<close>, \<open>saving_event\<close> and \<open>is_triggered_event\<close> are set and \<open>waiting_event\<close>
  is clear. With the mode enabled it returns \<open>False\<close> for every other combination. With
  the mode disabled it returns \<^verbatim>\<open>None\<close>, whatever the four events are: a falsy value, so
  the loop does not fire, but not the boolean \<open>False\<close> the claim as written promises.
\<close>

theorem trigger_condition_result:
  "fst (trigger_condition c) =
     (if scanning_trigger c
      then Some (start_comm (events c) \<and> saving_event (events c)
                   \<and> is_triggered_event (events c) \<and> \<not> waiting_event (events c))
      else None)
   \<and> truthy (fst (trigger_condition c)) =
       (scanning_trigger c \<and> start_comm (events c) \<and> saving_event (events c)
          \<and> is_triggered_event (events c) \<and> \<not> waiting_event (events c))"
  by (simp add: trigger_condition_def truthy_def Let_def)

theorem trigger_condition_disabled_counterexample:
  "fst (trigger_condition ((init False armed [] :: (nat, nat) coord)\<lparr>events := armed\<rparr>)) = None
   \<and> fst (trigger_condition ((init False armed [] :: (nat, nat) coord)\<lparr>events := armed\<rparr>))
        \<noteq> Some False"
  by (simp add: trigger_condition_def init_def)

subsection \<open>Draining the settings queue\<close>

text \<open>
  C7. With the entries \<open>A\<close>, \<open>B\<close>, \<open>C\<close> queued in that order, one drain pops all three
  (the queue is empty afterwards) and the request it leaves is built from \<open>C\<close> alone:
  it is \<^verbatim>\<open>dict(lightsheet=clean_json(C))\<close>, the same whatever the two older entries were.
\<close>

theorem drain_keeps_last:
  "current_config (drain_settings cj (c\<lparr>current_settings_queue := [A, B, C]\<rparr>))
     = Some (Lightsheet (cj C))
   \<and> current_settings (drain_settings cj (c\<lparr>current_settings_queue := [A, B, C]\<rparr>)) = Some C
   \<and> current_settings_queue (drain_settings cj (c\<lparr>current_settings_queue := [A, B, C]\<rparr>)) = []
   \<and> current_config (drain_settings cj (c\<lparr>current_settings_queue := [A, B, C]\<rparr>))
     = current_config (drain_settings cj (c\<lparr>current_settings_queue := [A', B', C]\<rparr>))"
  by (simp add: drain_settings_def)

subsection \<open>An iteration whose start is not confirmed\<close>

text \<open>
  C6. In an iteration where the gating condition is true but the start is not confirmed
  (the bounded wait returns false, or the wait raises and the \<^verbatim>\<open>is_set\<close> check that
  replaces it finds \<open>start_comm\<close> clear), the cycle is skipped: the link is not called,
  nothing is put on the duration queue, the request stays as the drain left it, and the
  coordinator writes no event (\<open>start_comm\<close> is not cleared; the events are as the other
  processes left them).
\<close>

theorem unconfirmed_start_skips:
  assumes gate: "truthy (fst (trigger_condition (drain_settings cj c)))"
    and unconfirmed: "wait_outcome e = Inr False
        \<or> (\<exists>x. wait_outcome e = Inl x) \<and> \<not> start_comm (written_during_wait e (events c))"
  shows "\<exists>c'. iteration comm cj e c = Completed c'
           \<and> requests c' = requests c
           \<and> duration_queue c' = duration_queue c
           \<and> current_config c' = current_config (drain_settings cj c)
           \<and> clears c' = clears c
           \<and> events c' = written_during_wait e (events c)"
proof -
  obtain r c2 where tc: "trigger_condition (drain_settings cj c) = (r, c2)"
    by (cases "trigger_condition (drain_settings cj c)")
  have c2: "c2 = snd (trigger_condition (drain_settings cj c))" and r: "truthy r"
    using tc gate by simp_all
  have ns: "\<not> confirm_start (wait_outcome e) (c2\<lparr>events := written_during_wait e (events c2)\<rparr>)"
    using unconfirmed by (auto simp: confirm_start_def c2)
  have "iteration comm cj e c =
          Completed (c2\<lparr>events := written_during_wait e (events c2),
                       messages := messages c2 @ [SkippingTrigger]\<rparr>)"
    using r ns by (simp add: iteration_def tc Let_def)
  then show ?thesis by (simp add: c2)
qed

theorem unconfirmed_start_skips_witness:
  "wait_outcome (calm (answered Timeout) (Inr False) :: (nat, wire) surroundings) = Inr False
   \<and> (\<exists>c'. iteration (stytra_comm table_builtins) (\<lambda>n. n)
              (calm (answered Timeout) (Inr False)) ready = Completed c'
          \<and> requests c' = [] \<and> duration_queue c' = [] \<and> clears c' = 0
          \<and> current_config c' = Some (Lightsheet 7) \<and> events c' = armed)
   \<and> (\<exists>c'. iteration (stytra_comm table_builtins) (\<lambda>n. n)
              (withdrawn (answered Timeout)) ready = Completed c'
          \<and> requests c' = [] \<and> duration_queue c' = [] \<and> clears c' = 0
          \<and> current_config c' = Some (Lightsheet 7)
          \<and> events c' = armed\<lparr>start_comm := False\<rparr>)"
proof -
  have w: "wait_outcome (calm (answered Timeout) (Inr False) :: (nat, wire) surroundings)
             = Inr False"
    by (simp add: calm_def)
  from unconfirmed_start_skips
         [where comm = "stytra_comm table_builtins" and cj = "\<lambda>n. n" and c = ready
            and e = "calm (answered Timeout) (Inr False)", OF ready_gate disjI1 [OF w]]
  obtain c' where "iteration (stytra_comm table_builtins) (\<lambda>n. n)
                     (calm (answered Timeout) (Inr False)) ready = Completed c'"
    and "requests c' = requests ready" and "duration_queue c' = duration_queue ready"
    and "current_config c' = current_config (drain_settings (\<lambda>n. n) ready)"
    and "clears c' = clears ready"
    and "events c' = written_during_wait
                       (calm (answered Timeout) (Inr False) :: (nat, wire) surroundings)
                       (events ready)"
    by blast
  then have first: "\<exists>c'. iteration (stytra_comm table_builtins) (\<lambda>n. n)
                     (calm (answered Timeout) (Inr False)) ready = Completed c'
          \<and> requests c' = [] \<and> duration_queue c' = [] \<and> clears c' = 0
          \<and> current_config c' = Some (Lightsheet 7) \<and> events c' = armed"
    by (simp add: ready_config) (simp add: ready_def init_def calm_def)
  have v: "(\<exists>x. wait_outcome (withdrawn (answered Timeout) :: (nat, wire) surroundings) = Inl x)
           \<and> \<not> start_comm (written_during_wait
                 (withdrawn (answered Timeout) :: (nat, wire) surroundings) (events ready))"
    by (simp add: withdrawn_def)
  from unconfirmed_start_skips
         [where comm = "stytra_comm table_builtins" and cj = "\<lambda>n. n" and c = ready
            and e = "withdrawn (answered Timeout)", OF ready_gate disjI2 [OF v]]
  obtain c'' where "iteration (stytra_comm table_builtins) (\<lambda>n. n)
                     (withdrawn (answered Timeout)) ready = Completed c''"
    and "requests c'' = requests ready" and "duration_queue c'' = duration_queue ready"
    and "current_config c'' = current_config (drain_settings (\<lambda>n. n) ready)"
    and "clears c'' = clears ready"
    and "events c'' = written_during_wait
                       (withdrawn (answered Timeout) :: (nat, wire) surroundings)
                       (events ready)"
    by blast
  then have second: "\<exists>c'. iteration (stytra_comm table_builtins) (\<lambda>n. n)
              (withdrawn (answered Timeout)) ready = Completed c'
          \<and> requests c' = [] \<and> duration_queue c' = [] \<and> clears c' = 0
          \<and> current_config c' = Some (Lightsheet 7)
          \<and> events c' = armed\<lparr>start_comm := False\<rparr>"
    by (simp add: ready_config) (simp add: ready_def init_def withdrawn_def)
  from w first second show ?thesis by blast
qed

subsection \<open>An iteration that fires\<close>

text \<open>
  C5, amended. In an iteration where the gating condition is true, the start is
  confirmed (the wait returns true, or it raises and \<^verbatim>\<open>is_set\<close> finds \<open>start_comm\<close>
  set) and the call of the link on the built request returns, \<open>start_comm\<close> is cleared
  exactly once, whether the call returned a value or the absent result; the value, if
  any, is the one thing put on the duration queue.

  The claim as written asks this of every iteration with a true condition and a
  confirmed start. When the link raises, the exception leaves the iteration before
  \<^verbatim>\<open>start_comm.clear()\<close>: see the counterexample.
\<close>

theorem confirmed_start_clears_once:
  assumes gate: "truthy (fst (trigger_condition (drain_settings cj c)))"
    and confirmed: "wait_outcome e = Inr True
        \<or> (\<exists>x. wait_outcome e = Inl x) \<and> start_comm (written_during_wait e (events c))"
    and built: "current_config (drain_settings cj c) = Some cfg"
    and returned: "comm cfg (peer e) = Some (Inr r)"
  shows "\<exists>c'. iteration comm cj e c = Completed c'
           \<and> clears c' = Suc (clears c)
           \<and> \<not> start_comm (events c')
           \<and> requests c' = requests c @ [cfg]
           \<and> duration_queue c' = duration_queue c @ (case r of None \<Rightarrow> [] | Some d \<Rightarrow> [d])"
proof -
  obtain t c2 where tc: "trigger_condition (drain_settings cj c) = (t, c2)"
    by (cases "trigger_condition (drain_settings cj c)")
  have c2: "c2 = snd (trigger_condition (drain_settings cj c))" and t: "truthy t"
    using tc gate by simp_all
  let ?c3 = "c2\<lparr>events := written_during_wait e (events c2)\<rparr>"
  have st: "confirm_start (wait_outcome e) ?c3"
    using confirmed by (auto simp: confirm_start_def c2)
  have it: "iteration comm cj e c = fire comm (peer e) ?c3"
    using t st by (simp add: iteration_def tc Let_def)
  have cfg: "current_config ?c3 = Some cfg"
    using built by (simp add: c2)
  show ?thesis
    unfolding it using cfg returned
    by (cases r) (simp_all add: fire_def Let_def c2)
qed

theorem confirmed_start_clears_once_witness:
  "(\<exists>c'. iteration (stytra_comm table_builtins) (\<lambda>n. n)
                 (calm (answered Timeout) (Inr True)) ready = Completed c'
          \<and> clears c' = 1 \<and> \<not> start_comm (events c')
          \<and> requests c' = [Lightsheet 7] \<and> duration_queue c' = [])
   \<and> (\<exists>c'. iteration (stytra_comm table_builtins) (\<lambda>n. n)
                 (calm (answered (Recv (PyDict [(''duration'', PyFloat (Finite 2.5))])))
                    (Inl AttributeError)) ready = Completed c'
          \<and> clears c' = 1 \<and> \<not> start_comm (events c')
          \<and> requests c' = [Lightsheet 7] \<and> duration_queue c' = [Finite 2.5])"
proof -
  let ?quiet = "calm (answered Timeout) (Inr True) :: (nat, wire) surroundings"
  let ?reply = "calm (answered (Recv (PyDict [(''duration'', PyFloat (Finite 2.5))])))
                  (Inl AttributeError) :: (nat, wire) surroundings"
  have w1: "wait_outcome ?quiet = Inr True"
    by (simp add: calm_def)
  have r1: "stytra_comm table_builtins (Lightsheet (7::nat)) (peer ?quiet) = Some (Inr None)"
    by (simp add: stytra_comm_def trigger_and_receive_duration_def answered_def calm_def)
  from confirmed_start_clears_once
         [where comm = "stytra_comm table_builtins" and cj = "\<lambda>n. n" and c = ready
            and e = ?quiet and cfg = "Lightsheet 7" and r = None,
          OF ready_gate disjI1 [OF w1] ready_config r1]
  have first: "\<exists>c'. iteration (stytra_comm table_builtins) (\<lambda>n. n) ?quiet ready = Completed c'
          \<and> clears c' = 1 \<and> \<not> start_comm (events c')
          \<and> requests c' = [Lightsheet 7] \<and> duration_queue c' = []"
    by (simp add: ready_def init_def)
  have w2: "(\<exists>x. wait_outcome ?reply = Inl x)
              \<and> start_comm (written_during_wait ?reply (events ready))"
    by (simp add: calm_def ready_def armed_def)
  have r2: "stytra_comm table_builtins (Lightsheet (7::nat)) (peer ?reply)
              = Some (Inr (Some (Finite 2.5)))"
    by (simp add: stytra_comm_def trigger_and_receive_duration_def answered_def calm_def
        duration_candidate_def normalize_def)
  from confirmed_start_clears_once
         [where comm = "stytra_comm table_builtins" and cj = "\<lambda>n. n" and c = ready
            and e = ?reply and cfg = "Lightsheet 7" and r = "Some (Finite 2.5)",
          OF ready_gate disjI2 [OF w2] ready_config r2]
  have second: "\<exists>c'. iteration (stytra_comm table_builtins) (\<lambda>n. n) ?reply ready = Completed c'
          \<and> clears c' = 1 \<and> \<not> start_comm (events c')
          \<and> requests c' = [Lightsheet 7] \<and> duration_queue c' = [Finite 2.5]"
    by (simp add: ready_def init_def)
  from first second show ?thesis by blast
qed

theorem link_failure_leaves_start_set_counterexample:
  "truthy (fst (trigger_condition (drain_settings (\<lambda>n. n) ready)))
   \<and> wait_outcome (calm (answered (RecvRaises JSONDecodeError)) (Inr True)
         :: (nat, wire) surroundings) = Inr True
   \<and> (case iteration (stytra_comm table_builtins) (\<lambda>n. n)
              (calm (answered (RecvRaises JSONDecodeError)) (Inr True)) ready of
         Failed x c' \<Rightarrow> x = JSONDecodeError \<and> clears c' = clears ready
                          \<and> start_comm (events c')
       | Completed c' \<Rightarrow> False
       | Hung c' \<Rightarrow> False)"
  by (simp add: iteration_def fire_def confirm_start_def trigger_condition_def truthy_def
      drain_settings_def stytra_comm_def trigger_and_receive_duration_def answered_def
      calm_def ready_def armed_def init_def Let_def)

subsection \<open>What reaches the duration queue\<close>

lemma normalize_finite: "normalize fp d = Some x \<Longrightarrow> isfinite x"
  by (auto simp: normalize_def split: sum.splits if_splits)

lemma stytra_comm_finite: "stytra_comm fp cfg w = Some (Inr (Some x)) \<Longrightarrow> isfinite x"
  by (auto simp: stytra_comm_def trigger_and_receive_duration_def normalize_finite
      split: option.splits recv.splits if_splits)

lemma fire_pushes:
  "\<exists>new. duration_queue (state_after (fire comm w c)) = duration_queue c @ new
         \<and> (new = [] \<or> (\<exists>cfg d. comm cfg w = Some (Inr (Some d)) \<and> new = [d]))"
  by (auto simp: fire_def Let_def split: option.splits sum.splits)

lemma iteration_pushes:
  "\<exists>new. duration_queue (state_after (iteration comm cj e c)) = duration_queue c @ new
         \<and> (new = [] \<or> (\<exists>cfg d. comm cfg (peer e) = Some (Inr (Some d)) \<and> new = [d]))"
proof -
  obtain r c2 where tc: "trigger_condition (drain_settings cj c) = (r, c2)"
    by (cases "trigger_condition (drain_settings cj c)")
  then have c2: "c2 = snd (trigger_condition (drain_settings cj c))" by simp
  show ?thesis
  proof (cases "truthy r \<and> confirm_start (wait_outcome e)
                   (c2\<lparr>events := written_during_wait e (events c2)\<rparr>)")
    case True
    then have "iteration comm cj e c
                 = fire comm (peer e) (c2\<lparr>events := written_during_wait e (events c2)\<rparr>)"
      by (simp add: iteration_def tc Let_def)
    moreover have "duration_queue (c2\<lparr>events := written_during_wait e (events c2)\<rparr>)
                     = duration_queue c"
      by (simp add: c2)
    ultimately show ?thesis
      using fire_pushes [of comm "peer e" "c2\<lparr>events := written_during_wait e (events c2)\<rparr>"]
      by simp
  next
    case False
    then have "duration_queue (state_after (iteration comm cj e c)) = duration_queue c2"
      by (auto simp: iteration_def tc Let_def)
    then show ?thesis by (simp add: c2)
  qed
qed

lemma iteration_stytra_finite:
  "\<exists>new. duration_queue (state_after (iteration (stytra_comm fp) cj e c))
            = duration_queue c @ new \<and> list_all isfinite new"
  using iteration_pushes [of "stytra_comm fp" cj e c]
  by (auto dest: stytra_comm_finite)

lemma run_loop_stytra_finite:
  "\<exists>new. duration_queue (final (run_loop (stytra_comm fp) cj es c))
            = duration_queue c @ new \<and> list_all isfinite new"
proof (induction es arbitrary: c)
  case Nil
  show ?case by simp
next
  case (Cons e es)
  let ?c0 = "arrive e c"
  have q0: "duration_queue ?c0 = duration_queue c" by (simp add: arrive_def)
  show ?case
  proof (cases "stop_event (events ?c0)")
    case True
    then show ?thesis by (simp add: q0 Let_def)
  next
    case False
    obtain new where new: "duration_queue (state_after (iteration (stytra_comm fp) cj e ?c0))
                             = duration_queue c @ new" "list_all isfinite new"
      using iteration_stytra_finite [of fp cj e ?c0] by (auto simp: q0)
    show ?thesis
    proof (cases "iteration (stytra_comm fp) cj e ?c0")
      case (Failed x c')
      then show ?thesis using False new by (auto simp: Let_def)
    next
      case (Hung c')
      then show ?thesis using False new by (auto simp: Let_def)
    next
      case (Completed c')
      obtain more where "duration_queue (final (run_loop (stytra_comm fp) cj es c'))
                           = duration_queue c' @ more" "list_all isfinite more"
        using Cons.IH [of c'] by blast
      then show ?thesis using False new Completed
        by (auto simp: Let_def)
    qed
  qed
qed

lemma not_finite_cases: "list_all isfinite new \<Longrightarrow> NaN \<notin> set new \<and> PosInf \<notin> set new \<and> NegInf \<notin> set new"
  by (auto simp: list_all_iff)

text \<open>
  C9. Whatever the surroundings, what a run with the network link appends to the
  duration queue are finite floats only: NaN, +Infinity and -Infinity are never put.
  And an iteration in which the link returns the absent result puts nothing.
\<close>

theorem pushed_durations_finite:
  "(\<exists>new. duration_queue (final (run (stytra_comm fp) cj es c)) = duration_queue c @ new
          \<and> list_all isfinite new
          \<and> NaN \<notin> set new \<and> PosInf \<notin> set new \<and> NegInf \<notin> set new)
   \<and> ((\<forall>cfg. comm cfg (peer e) = Some (Inr None))
        \<longrightarrow> duration_queue (state_after (iteration comm cj e c)) = duration_queue c)"
proof -
  have "\<exists>new. duration_queue (final (run (stytra_comm fp) cj es c)) = duration_queue c @ new
          \<and> list_all isfinite new"
    using run_loop_stytra_finite
            [of fp cj es "c\<lparr>messages := messages c @ [Started], current_config := None\<rparr>"]
    by (simp add: run_def)
  then have "\<exists>new. duration_queue (final (run (stytra_comm fp) cj es c)) = duration_queue c @ new
          \<and> list_all isfinite new
          \<and> NaN \<notin> set new \<and> PosInf \<notin> set new \<and> NegInf \<notin> set new"
    using not_finite_cases by blast
  moreover have "(\<forall>cfg. comm cfg (peer e) = Some (Inr None))
        \<longrightarrow> duration_queue (state_after (iteration comm cj e c)) = duration_queue c"
    using iteration_pushes [of comm cj e c] by auto
  ultimately show ?thesis by blast
qed

theorem pushed_durations_finite_witness:
  "(\<exists>new. duration_queue (final (run (stytra_comm table_builtins) (\<lambda>n. n)
              [calm (answered (Recv (PyDict [(''duration'', PyFloat (Finite 2.5))]))) (Inr True)]
              ready)) = duration_queue ready @ new \<and> list_all isfinite new)
   \<and> duration_queue (state_after (iteration (stytra_comm table_builtins) (\<lambda>n. n)
        (calm (answered Timeout) (Inr True)) ready)) = duration_queue ready"
proof -
  note T = pushed_durations_finite
             [where c = ready and comm = "stytra_comm table_builtins" and cj = "\<lambda>n. n"
                and fp = table_builtins
                and es = "[calm (answered (Recv (PyDict [(''duration'', PyFloat (Finite 2.5))])))
                             (Inr True)]"
                and e = "calm (answered Timeout) (Inr True)"]
  have a: "\<forall>cfg::nat config. stytra_comm table_builtins cfg
             (peer (calm (answered Timeout) (Inr True) :: (nat, wire) surroundings)) = Some (Inr None)"
    by (simp add: stytra_comm_def trigger_and_receive_duration_def answered_def calm_def)
  from T a show ?thesis by blast
qed

subsection \<open>How the loop ends\<close>

lemma iteration_survives:
  assumes built: "current_config c \<noteq> None \<or> current_settings_queue c \<noteq> []"
    and returns: "\<forall>cfg. \<exists>r. comm cfg (peer e) = Some (Inr r)"
  shows "\<exists>c'. iteration comm cj e c = Completed c' \<and> current_config c' \<noteq> None"
proof -
  obtain r c2 where tc: "trigger_condition (drain_settings cj c) = (r, c2)"
    by (cases "trigger_condition (drain_settings cj c)")
  then have c2: "c2 = snd (trigger_condition (drain_settings cj c))" by simp
  have "current_config (drain_settings cj c) \<noteq> None"
    using built by (auto simp: drain_settings_def drain_config)
  then obtain cfg where cfg: "current_config c2 = Some cfg"
    by (auto simp: c2)
  obtain d where d: "comm cfg (peer e) = Some (Inr d)"
    using returns by blast
  let ?c3 = "c2\<lparr>events := written_during_wait e (events c2)\<rparr>"
  have "\<exists>c'. fire comm (peer e) ?c3 = Completed c' \<and> current_config c' \<noteq> None"
    using cfg d by (cases d) (simp_all add: fire_def Let_def)
  then show ?thesis
    using cfg by (auto simp: iteration_def tc Let_def)
qed

lemma run_loop_survives:
  assumes "current_config c \<noteq> None \<or> current_settings_queue c \<noteq> []"
    and "\<forall>e\<in>set es. \<forall>cfg. \<exists>r. comm cfg (peer e) = Some (Inr r)"
  shows "\<exists>c'. run_loop comm cj es c = Running c'
            \<or> run_loop comm cj es c = Stopped c' \<and> stop_event (events c')"
  using assms
proof (induction es arbitrary: c)
  case Nil
  show ?case by simp
next
  case (Cons e es)
  let ?c0 = "arrive e c"
  show ?case
  proof (cases "stop_event (events ?c0)")
    case True
    then show ?thesis by (simp add: Let_def)
  next
    case False
    have "current_config ?c0 \<noteq> None \<or> current_settings_queue ?c0 \<noteq> []"
      using Cons.prems(1) by (auto simp: arrive_def)
    moreover have "\<forall>cfg. \<exists>r. comm cfg (peer e) = Some (Inr r)"
      using Cons.prems(2) by simp
    ultimately obtain c' where c': "iteration comm cj e ?c0 = Completed c'"
        "current_config c' \<noteq> None"
      using iteration_survives [of ?c0 comm e cj] by blast
    have "\<exists>c''. run_loop comm cj es c' = Running c''
            \<or> run_loop comm cj es c' = Stopped c'' \<and> stop_event (events c'')"
      using Cons.IH [of c'] c'(2) Cons.prems(2) by simp
    then show ?thesis using False c'(1) by (simp add: Let_def)
  qed
qed

lemma link_failure_propagates:
  assumes gate: "truthy (fst (trigger_condition (drain_settings cj c)))"
    and confirmed: "wait_outcome e = Inr True
        \<or> (\<exists>y. wait_outcome e = Inl y) \<and> start_comm (written_during_wait e (events c))"
    and built: "current_config (drain_settings cj c) = Some cfg"
    and raised: "comm cfg (peer e) = Some (Inl x)"
  shows "\<exists>c'. iteration comm cj e c = Failed x c'"
proof -
  obtain t c2 where tc: "trigger_condition (drain_settings cj c) = (t, c2)"
    by (cases "trigger_condition (drain_settings cj c)")
  have c2: "c2 = snd (trigger_condition (drain_settings cj c))" and t: "truthy t"
    using tc gate by simp_all
  let ?c3 = "c2\<lparr>events := written_during_wait e (events c2)\<rparr>"
  have st: "confirm_start (wait_outcome e) ?c3"
    using confirmed by (auto simp: confirm_start_def c2)
  have it: "iteration comm cj e c = fire comm (peer e) ?c3"
    using t st by (simp add: iteration_def tc Let_def)
  have cfg: "current_config ?c3 = Some cfg"
    using built by (simp add: c2)
  show ?thesis
    unfolding it using cfg raised by (simp add: fire_def Let_def)
qed

text \<open>
  C2, amended. From a state in which a request has been built or a settings entry is
  queued, and as long as every call of the link returns (a value or the absent result),
  no sequence of events ends the loop other than the stop event: after any number of
  rounds the loop is either still running or has stopped with \<open>stop_event\<close> set. This
  includes every failure of the start-confirmation wait, which is caught. A failure
  raised by the link is not caught: in an iteration that fires, it leaves the
  iteration, and with it \<^verbatim>\<open>run\<close>, as that exception.

  The claim as written lets nothing but the stop event end the loop, a failing link
  included: see the counterexample.
\<close>

theorem loop_ends_by_stop_or_link_failure:
  "((current_config c \<noteq> None \<or> current_settings_queue c \<noteq> [])
      \<and> (\<forall>e\<in>set es. \<forall>cfg. \<exists>r. comm cfg (peer e) = Some (Inr r))
     \<longrightarrow> (\<exists>c'. run_loop comm cj es c = Running c'
            \<or> run_loop comm cj es c = Stopped c' \<and> stop_event (events c')))
   \<and> (truthy (fst (trigger_condition (drain_settings cj c)))
      \<and> (wait_outcome e = Inr True
          \<or> (\<exists>y. wait_outcome e = Inl y) \<and> start_comm (written_during_wait e (events c)))
      \<and> current_config (drain_settings cj c) = Some cfg
      \<and> comm cfg (peer e) = Some (Inl x)
     \<longrightarrow> (\<exists>c'. iteration comm cj e c = Failed x c'))"
  using run_loop_survives [of c es comm cj] link_failure_propagates [of cj c e cfg comm x]
  by blast

theorem loop_ends_by_stop_or_link_failure_witness:
  "current_settings_queue ready \<noteq> []
   \<and> (\<exists>c'. run_loop (stytra_comm table_builtins) (\<lambda>n. n)
              [calm (answered Timeout) (Inr True), withdrawn (answered Timeout),
               halting (answered Timeout)] ready = Running c'
          \<or> run_loop (stytra_comm table_builtins) (\<lambda>n. n)
              [calm (answered Timeout) (Inr True), withdrawn (answered Timeout),
               halting (answered Timeout)] ready = Stopped c'
            \<and> stop_event (events c'))
   \<and> (\<exists>c'. iteration (stytra_comm table_builtins) (\<lambda>n. n)
              (calm (answered (RecvRaises JSONDecodeError)) (Inr True)) ready
            = Failed JSONDecodeError c')"
proof -
  note T = loop_ends_by_stop_or_link_failure
             [where c = ready and comm = "stytra_comm table_builtins" and cj = "\<lambda>n. n"
                and es = "[calm (answered Timeout) (Inr True), withdrawn (answered Timeout),
                           halting (answered Timeout)]"
                and e = "calm (answered (RecvRaises JSONDecodeError)) (Inr True)"
                and cfg = "Lightsheet 7" and x = JSONDecodeError]
  have q: "current_settings_queue ready \<noteq> []"
    by (simp add: ready_def)
  have l: "\<forall>e\<in>set [calm (answered Timeout) (Inr True), withdrawn (answered Timeout),
                     halting (answered Timeout)].
             \<forall>cfg::nat config. \<exists>r. stytra_comm table_builtins cfg (peer e) = Some (Inr r)"
    by (simp add: calm_def withdrawn_def halting_def stytra_comm_def
        trigger_and_receive_duration_def answered_def)
  have w: "wait_outcome (calm (answered (RecvRaises JSONDecodeError)) (Inr True)
             :: (nat, wire) surroundings) = Inr True"
    by (simp add: calm_def)
  have x: "stytra_comm table_builtins (Lightsheet (7::nat))
             (peer (calm (answered (RecvRaises JSONDecodeError)) (Inr True)
                :: (nat, wire) surroundings)) = Some (Inl JSONDecodeError)"
    by (simp add: stytra_comm_def trigger_and_receive_duration_def answered_def calm_def)
  from T q l ready_gate w ready_config x show ?thesis by blast
qed

theorem link_failure_ends_loop_counterexample:
  "is_raised (run (stytra_comm table_builtins) (\<lambda>n. n)
                [calm (answered (RecvRaises JSONDecodeError)) (Inr True)] ready)
   \<and> \<not> stop_event (events (final (run (stytra_comm table_builtins) (\<lambda>n. n)
                [calm (answered (RecvRaises JSONDecodeError)) (Inr True)] ready)))"
  by (simp add: run_def arrive_def iteration_def fire_def confirm_start_def
      trigger_condition_def truthy_def
      drain_settings_def stytra_comm_def trigger_and_receive_duration_def answered_def
      calm_def ready_def armed_def init_def Let_def)

text \<open>
  The amended statement starts from a request that exists and from calls of the link
  that come back. A call that meets no peer never comes back, and the loop stands still
  in it without ending. And without a request the loop can end as well: \<^verbatim>\<open>run\<close>
  enters the loop with \<open>current_config\<close> unbound, and when the condition is true and
  the start confirmed before any settings entry was queued, the first use of the name
  raises \<^verbatim>\<open>UnboundLocalError\<close>.
\<close>

lemma unreached_peer_blocks_loop:
  "\<exists>c'. run (stytra_comm table_builtins) (\<lambda>n. n) [calm unreached (Inr True)] ready
          = Blocked c' \<and> clears c' = 0 \<and> duration_queue c' = []"
  by (simp add: run_def arrive_def iteration_def fire_def confirm_start_def
      trigger_condition_def truthy_def
      drain_settings_def stytra_comm_def trigger_and_receive_duration_def unreached_def
      calm_def ready_def armed_def init_def Let_def)

lemma unbound_config_ends_loop:
  "run (stytra_comm table_builtins) (\<lambda>n. n) [calm (answered Timeout) (Inr True)]
       ((init True armed [] :: (nat, nat) coord)\<lparr>events := armed\<rparr>)
     = Raised UnboundLocalError
         ((init True armed [])\<lparr>events := armed, last_trigger_cond := True,
            messages := [Started, ConditionChanged True True True False True]\<rparr>)"
  by (simp add: run_def arrive_def iteration_def fire_def confirm_start_def
      trigger_condition_def truthy_def
      drain_settings_def calm_def armed_def init_def Let_def)

end
